theory Spec2Isabelle
  imports Main
begin

section \<open>Data model\<close>

text \<open>
  Go errors.  The sentinels are the package-level variables of the session and witness
  packages.  \<open>ErrorNew\<close> is an error made by \<open>errors.New\<close> or by \<open>fmt.Errorf\<close>
  without \<open>%w\<close>; \<open>Errorf pre e suf\<close> is \<open>fmt.Errorf\<close> wrapping \<open>e\<close> with \<open>%w\<close>,
  the text before and after the verb kept; \<open>ExtErr\<close> is an error value handed back by a
  collaborator outside this code (tmux, the file system, the mailbox), known by its message only.
\<close>

datatype error =
    ErrSessionRunning
  | ErrSessionNotFound
  | ErrPolecatNotFound
  | ErrNotRunning
  | ErrAlreadyRunning
  | ErrorNew string
  | Errorf string error string
  | ExtErr string

text \<open>\<open>errors.Is\<close>: the error itself or anything on its unwrap chain.\<close>

fun errors_Is :: "error \<Rightarrow> error \<Rightarrow> bool" where
  "errors_Is (Errorf pre e suf) t = (Errorf pre e suf = t \<or> errors_Is e t)"
| "errors_Is e t = (e = t)"

text \<open>
  Modelled from the spec: the declarations of \<open>rig.Rig\<close> and of the persisted
  \<open>witness.Witness\<close> document are not part of the sources at hand; their fields are those the
  code reads and writes, with the types the specification gives them
  (state one of Stopped and Running, pid 0 when stopped, a nullable start time).
\<close>

record Rig =
  Name :: string
  Path :: string
  Polecats :: "string list"

datatype State = StateStopped | StateRunning

record Witness =
  RigName :: string
  State :: State
  PID :: int
  StartedAt :: "nat option"
  MonitoredPolecats :: "string list"

text \<open>\<open>session.Manager\<close>; its tmux handle is the environment below.\<close>

record Manager =
  rig :: Rig

record StartOptions =
  WorkDir :: string
  Issue :: string
  Command :: string

record Info =
  Polecat :: string
  SessionID :: string
  Running :: bool
  Info_RigName :: string

text \<open>\<open>witness.Manager\<close>.\<close>

record WitnessManager =
  w_rig :: Rig
  workDir :: string

text \<open>\<open>mail.Message\<close> and \<open>crew.CrewWorker\<close>, as far as the crew command uses them.\<close>

record Message =
  From :: string
  To :: string
  Subject :: string
  Body :: string

record CrewWorker =
  Worker_Name :: string
  ClonePath :: string

text \<open>
  A value of \<open>os.Signal\<close>; the argument of \<open>Process.Signal\<close> is an interface value, so
  it is optional: \<open>None\<close> is the nil interface.
\<close>

datatype os_signal = os_Interrupt | os_Kill | syscall_Signal nat

section \<open>The world outside: calls, their trace and the answers\<close>

text \<open>
  Every call that leaves this code is recorded, in order, in a trace.  The collaborators are
  not part of the code: what they answer is given by an environment, each answer a function
  of the calls made so far and of the call's arguments, so that any sequential behaviour of
  tmux, the file system, the process table and the mailbox is covered.
\<close>

datatype call =
    HasSession string
  | NewSession string string
  | KillSession string
  | SendKeys string string
  | SendKeysRaw string string
  | SendKeysDebounced string string int
  | SetEnvironment string string string
  | ListSessions
  | Sleep nat
  | Stat string
  | MkdirAll string
  | ReadFile string
  | AtomicWriteJSON string Witness
  | FindProcess int
  | Signal int "os_signal option"
  | GetCrewManager string
  | CrewGet string
  | MailboxAppend string Message

type_synonym trace = "call list"

datatype stat_result = StatNotExist | StatErr string | StatOk bool

datatype read_result = ReadNotExist | ReadErr string | ReadData string

datatype crew_get_result = CrewNotFound | CrewErr string | CrewFound CrewWorker

record env =
  hasSession :: "trace \<Rightarrow> string \<Rightarrow> string + bool"
  newSession :: "trace \<Rightarrow> string \<Rightarrow> string \<Rightarrow> string option"
  killSession :: "trace \<Rightarrow> string \<Rightarrow> string option"
  sendKeys :: "trace \<Rightarrow> string \<Rightarrow> string \<Rightarrow> string option"
  sendKeysRaw :: "trace \<Rightarrow> string \<Rightarrow> string \<Rightarrow> string option"
  sendKeysDebounced :: "trace \<Rightarrow> string \<Rightarrow> string \<Rightarrow> int \<Rightarrow> string option"
  setEnvironment :: "trace \<Rightarrow> string \<Rightarrow> string \<Rightarrow> string \<Rightarrow> string option"
  listSessions :: "trace \<Rightarrow> string + string list"
  stat :: "trace \<Rightarrow> string \<Rightarrow> stat_result"
  mkdirAll :: "trace \<Rightarrow> string \<Rightarrow> string option"
  readFile :: "trace \<Rightarrow> string \<Rightarrow> read_result"
  jsonUnmarshal :: "string \<Rightarrow> string + Witness"
  atomicWriteJSON :: "trace \<Rightarrow> string \<Rightarrow> Witness \<Rightarrow> string option"
  findProcess :: "trace \<Rightarrow> int \<Rightarrow> string option"
  signal :: "trace \<Rightarrow> int \<Rightarrow> os_signal option \<Rightarrow> string option"
  getpid :: int
  now :: "trace \<Rightarrow> nat"
  pathJoin :: "string list \<Rightarrow> string"
  pathDir :: "string \<Rightarrow> string"
  getCrewManagerRig :: "trace \<Rightarrow> string \<Rightarrow> error + Rig"
  crewGet :: "trace \<Rightarrow> string \<Rightarrow> crew_get_result"
  mailboxAppend :: "trace \<Rightarrow> string \<Rightarrow> Message \<Rightarrow> string option"

text \<open>The tmux wrapper's methods: ask the environment, record the call.\<close>

definition tmux_HasSession :: "env \<Rightarrow> string \<Rightarrow> trace \<Rightarrow> (error + bool) \<times> trace" where
  "tmux_HasSession e k tr =
     ((case hasSession e tr k of Inl msg \<Rightarrow> Inl (ExtErr msg) | Inr b \<Rightarrow> Inr b),
      tr @ [HasSession k])"

definition tmux_NewSession :: "env \<Rightarrow> string \<Rightarrow> string \<Rightarrow> trace \<Rightarrow> error option \<times> trace" where
  "tmux_NewSession e k dir tr = (map_option ExtErr (newSession e tr k dir), tr @ [NewSession k dir])"

definition tmux_KillSession :: "env \<Rightarrow> string \<Rightarrow> trace \<Rightarrow> error option \<times> trace" where
  "tmux_KillSession e k tr = (map_option ExtErr (killSession e tr k), tr @ [KillSession k])"

definition tmux_SendKeys :: "env \<Rightarrow> string \<Rightarrow> string \<Rightarrow> trace \<Rightarrow> error option \<times> trace" where
  "tmux_SendKeys e k txt tr = (map_option ExtErr (sendKeys e tr k txt), tr @ [SendKeys k txt])"

definition tmux_SendKeysRaw :: "env \<Rightarrow> string \<Rightarrow> string \<Rightarrow> trace \<Rightarrow> error option \<times> trace" where
  "tmux_SendKeysRaw e k txt tr =
     (map_option ExtErr (sendKeysRaw e tr k txt), tr @ [SendKeysRaw k txt])"

definition tmux_SendKeysDebounced ::
  "env \<Rightarrow> string \<Rightarrow> string \<Rightarrow> int \<Rightarrow> trace \<Rightarrow> error option \<times> trace" where
  "tmux_SendKeysDebounced e k txt ms tr =
     (map_option ExtErr (sendKeysDebounced e tr k txt ms), tr @ [SendKeysDebounced k txt ms])"

definition tmux_SetEnvironment ::
  "env \<Rightarrow> string \<Rightarrow> string \<Rightarrow> string \<Rightarrow> trace \<Rightarrow> error option \<times> trace" where
  "tmux_SetEnvironment e k var val tr =
     (map_option ExtErr (setEnvironment e tr k var val), tr @ [SetEnvironment k var val])"

definition tmux_ListSessions :: "env \<Rightarrow> trace \<Rightarrow> (error + string list) \<times> trace" where
  "tmux_ListSessions e tr =
     ((case listSessions e tr of Inl msg \<Rightarrow> Inl (ExtErr msg) | Inr ks \<Rightarrow> Inr ks),
      tr @ [ListSessions])"

text \<open>\<open>time.Sleep\<close>, in milliseconds.\<close>

definition time_Sleep :: "nat \<Rightarrow> trace \<Rightarrow> trace" where
  "time_Sleep ms tr = tr @ [Sleep ms]"

section \<open>Package session: the polecat session manager\<close>

text \<open>\<open>strings.HasPrefix\<close> and \<open>strings.TrimPrefix\<close>, as the Go library defines them.\<close>

definition HasPrefix :: "string \<Rightarrow> string \<Rightarrow> bool" where
  "HasPrefix s p = (length s \<ge> length p \<and> take (length p) s = p)"

definition TrimPrefix :: "string \<Rightarrow> string \<Rightarrow> string" where
  "TrimPrefix s p = (if HasPrefix s p then drop (length p) s else s)"

definition sessionName :: "Manager \<Rightarrow> string \<Rightarrow> string" where
  "sessionName m polecat = ''gt-'' @ Name (rig m) @ ''-'' @ polecat"

definition polecatDir :: "env \<Rightarrow> Manager \<Rightarrow> string \<Rightarrow> string" where
  "polecatDir e m polecat = pathJoin e [Path (rig m), ''polecats'', polecat]"

definition hasPolecat :: "env \<Rightarrow> Manager \<Rightarrow> string \<Rightarrow> trace \<Rightarrow> bool \<times> trace" where
  "hasPolecat e m polecat tr =
     (let polecatPath = polecatDir e m polecat in
      ((case stat e tr polecatPath of StatOk isDir \<Rightarrow> isDir | _ \<Rightarrow> False),
       tr @ [Stat polecatPath]))"

text \<open>
  The debounce of \<open>Inject\<close>, from the length of the message in bytes.  A Go \<open>int\<close> holds
  \<open>200 + (len / 1024) * 100\<close> for every length a string can have, so nothing wraps.
\<close>

definition debounceMs :: "string \<Rightarrow> int" where
  "debounceMs message =
     (let d = 200 + (int (length message) div 1024) * 100 in
      if d > 1500 then 1500 else d)"

definition Inject :: "env \<Rightarrow> Manager \<Rightarrow> string \<Rightarrow> string \<Rightarrow> trace \<Rightarrow> error option \<times> trace" where
  "Inject e m polecat message tr =
     (let sessionID = sessionName m polecat in
      case tmux_HasSession e sessionID tr of
        (Inl err, tr1) \<Rightarrow> (Some (Errorf ''checking session: '' err ''''), tr1)
      | (Inr running, tr1) \<Rightarrow>
          if \<not> running then (Some ErrSessionNotFound, tr1)
          else tmux_SendKeysDebounced e sessionID message (debounceMs message) tr1)"

text \<open>
  \<open>Start\<close>.  The follow-up prompt goes through \<open>Inject\<close>; its error is dropped.
\<close>

definition Start :: "env \<Rightarrow> Manager \<Rightarrow> string \<Rightarrow> StartOptions \<Rightarrow> trace \<Rightarrow> error option \<times> trace" where
  "Start e m polecat opts tr =
     (case hasPolecat e m polecat tr of
        (False, tr1) \<Rightarrow> (Some (Errorf [] ErrPolecatNotFound ('': '' @ polecat)), tr1)
      | (True, tr1) \<Rightarrow>
          (let sessionID = sessionName m polecat in
           case tmux_HasSession e sessionID tr1 of
             (Inl err, tr2) \<Rightarrow> (Some (Errorf ''checking session: '' err []), tr2)
           | (Inr True, tr2) \<Rightarrow> (Some (Errorf [] ErrSessionRunning ('': '' @ sessionID)), tr2)
           | (Inr False, tr2) \<Rightarrow>
               (let workDir = (if WorkDir opts = [] then polecatDir e m polecat else WorkDir opts) in
                case tmux_NewSession e sessionID workDir tr2 of
                  (Some err, tr3) \<Rightarrow> (Some (Errorf ''creating session: '' err []), tr3)
                | (None, tr3) \<Rightarrow>
                    (let tr4 = snd (tmux_SetEnvironment e sessionID ''GT_RIG'' (Name (rig m)) tr3);
                         tr5 = snd (tmux_SetEnvironment e sessionID ''GT_POLECAT'' polecat tr4);
                         command = (if Command opts = []
                                    then ''claude --dangerously-skip-permissions''
                                    else Command opts)
                     in case tmux_SendKeys e sessionID command tr5 of
                          (Some err, tr6) \<Rightarrow> (Some (Errorf ''sending command: '' err []), tr6)
                        | (None, tr6) \<Rightarrow>
                            (if Issue opts \<noteq> [] then
                               (let tr7 = time_Sleep 500 tr6;
                                    prompt = ''Work on issue: '' @ Issue opts
                                in (None, snd (Inject e m polecat prompt tr7)))
                             else (None, tr6))))))"

definition Stop :: "env \<Rightarrow> Manager \<Rightarrow> string \<Rightarrow> bool \<Rightarrow> trace \<Rightarrow> error option \<times> trace" where
  "Stop e m polecat force tr =
     (let sessionID = sessionName m polecat in
      case tmux_HasSession e sessionID tr of
        (Inl err, tr1) \<Rightarrow> (Some (Errorf ''checking session: '' err []), tr1)
      | (Inr False, tr1) \<Rightarrow> (Some ErrSessionNotFound, tr1)
      | (Inr True, tr1) \<Rightarrow>
          (let tr2 = (if \<not> force
                      then time_Sleep 100 (snd (tmux_SendKeysRaw e sessionID ''C-c'' tr1))
                      else tr1)
           in case tmux_KillSession e sessionID tr2 of
                (Some err, tr3) \<Rightarrow> (Some (Errorf ''killing session: '' err []), tr3)
              | (None, tr3) \<Rightarrow> (None, tr3)))"

definition IsRunning :: "env \<Rightarrow> Manager \<Rightarrow> string \<Rightarrow> trace \<Rightarrow> (error + bool) \<times> trace" where
  "IsRunning e m polecat tr = tmux_HasSession e (sessionName m polecat) tr"

text \<open>The loop of \<open>List\<close> over the session names, \<open>infos\<close> the slice built so far.\<close>

fun List_loop :: "Manager \<Rightarrow> string \<Rightarrow> string list \<Rightarrow> Info list \<Rightarrow> Info list" where
  "List_loop m prefix [] infos = infos"
| "List_loop m prefix (sessionID # sessions) infos =
     (if \<not> HasPrefix sessionID prefix then List_loop m prefix sessions infos
      else List_loop m prefix sessions
             (infos @ [\<lparr>Polecat = TrimPrefix sessionID prefix, SessionID = sessionID,
                        Running = True, Info_RigName = Name (rig m)\<rparr>]))"

definition List :: "env \<Rightarrow> Manager \<Rightarrow> trace \<Rightarrow> (error + Info list) \<times> trace" where
  "List e m tr =
     (case tmux_ListSessions e tr of
        (Inl err, tr1) \<Rightarrow> (Inl err, tr1)
      | (Inr sessions, tr1) \<Rightarrow>
          (Inr (List_loop m (''gt-'' @ Name (rig m) @ ''-'') sessions []), tr1))"

text \<open>The loop of \<open>StopAll\<close>, \<open>lastErr\<close> the variable it keeps.\<close>

fun StopAll_loop ::
  "env \<Rightarrow> Manager \<Rightarrow> bool \<Rightarrow> Info list \<Rightarrow> error option \<Rightarrow> trace \<Rightarrow> error option \<times> trace" where
  "StopAll_loop e m force [] lastErr tr = (lastErr, tr)"
| "StopAll_loop e m force (info # infos) lastErr tr =
     (case Stop e m (Polecat info) force tr of
        (Some err, tr1) \<Rightarrow> StopAll_loop e m force infos (Some err) tr1
      | (None, tr1) \<Rightarrow> StopAll_loop e m force infos lastErr tr1)"

definition StopAll :: "env \<Rightarrow> Manager \<Rightarrow> bool \<Rightarrow> trace \<Rightarrow> error option \<times> trace" where
  "StopAll e m force tr =
     (case List e m tr of
        (Inl err, tr1) \<Rightarrow> (Some err, tr1)
      | (Inr infos, tr1) \<Rightarrow> StopAll_loop e m force infos None tr1)"

text \<open>
  What the specification says of \<open>StopAll\<close>, in its words: Stop is attempted on each listed
  session in turn, each attempt starting where the one before ended, and every outcome is
  kept; the value returned is the last error among the outcomes, nil when there is none.
\<close>

fun stop_each ::
  "env \<Rightarrow> Manager \<Rightarrow> bool \<Rightarrow> Info list \<Rightarrow> trace \<Rightarrow> error option list \<times> trace" where
  "stop_each e m force [] tr = ([], tr)"
| "stop_each e m force (info # infos) tr =
     (let (r, tr1) = Stop e m (Polecat info) force tr;
          (rs, tr2) = stop_each e m force infos tr1
      in (r # rs, tr2))"

definition last_error :: "error option list \<Rightarrow> error option" where
  "last_error rs = (case rev (filter (\<lambda>r. r \<noteq> None) rs) of [] \<Rightarrow> None | r # _ \<Rightarrow> r)"

section \<open>Package util: the liveness probe\<close>

definition os_FindProcess :: "env \<Rightarrow> int \<Rightarrow> trace \<Rightarrow> error option \<times> trace" where
  "os_FindProcess e pid tr = (map_option ExtErr (findProcess e tr pid), tr @ [FindProcess pid])"

definition Process_Signal :: "env \<Rightarrow> int \<Rightarrow> os_signal option \<Rightarrow> trace \<Rightarrow> error option \<times> trace" where
  "Process_Signal e pid sig tr = (map_option ExtErr (signal e tr pid sig), tr @ [Signal pid sig])"

text \<open>\<open>ProcessExists\<close> passes the nil interface value to \<open>Signal\<close>.\<close>

definition ProcessExists :: "env \<Rightarrow> int \<Rightarrow> trace \<Rightarrow> bool \<times> trace" where
  "ProcessExists e pid tr =
     (case os_FindProcess e pid tr of
        (Some err, tr1) \<Rightarrow> (False, tr1)
      | (None, tr1) \<Rightarrow>
          (case Process_Signal e pid None tr1 of (r, tr2) \<Rightarrow> (r = None, tr2)))"

text \<open>
  What Go's \<open>os\<close> package does with the nil signal, on every platform: \<open>Process.Signal\<close>
  asserts its argument to be a \<open>syscall.Signal\<close> and returns the error
  "os: unsupported signal type" when it is not, which is the case of nil.  An environment
  that is a Go runtime answers so.
\<close>

definition go_os :: "env \<Rightarrow> bool" where
  "go_os e = (\<forall>tr pid. signal e tr pid None = Some ''os: unsupported signal type'')"

section \<open>Package witness: the witness manager\<close>

definition stateFile :: "env \<Rightarrow> WitnessManager \<Rightarrow> string" where
  "stateFile e m = pathJoin e [Path (w_rig m), ''.runtime'', ''witness.json'']"

definition loadState :: "env \<Rightarrow> WitnessManager \<Rightarrow> trace \<Rightarrow> (error + Witness) \<times> trace" where
  "loadState e m tr =
     ((case readFile e tr (stateFile e m) of
         ReadNotExist \<Rightarrow>
           Inr \<lparr>RigName = Name (w_rig m), State = StateStopped, PID = 0, StartedAt = None,
                MonitoredPolecats = []\<rparr>
       | ReadErr msg \<Rightarrow> Inl (ExtErr msg)
       | ReadData data \<Rightarrow>
           (case jsonUnmarshal e data of Inl msg \<Rightarrow> Inl (ExtErr msg) | Inr w \<Rightarrow> Inr w)),
      tr @ [ReadFile (stateFile e m)])"

definition os_MkdirAll :: "env \<Rightarrow> string \<Rightarrow> trace \<Rightarrow> error option \<times> trace" where
  "os_MkdirAll e dir tr = (map_option ExtErr (mkdirAll e tr dir), tr @ [MkdirAll dir])"

definition util_AtomicWriteJSON :: "env \<Rightarrow> string \<Rightarrow> Witness \<Rightarrow> trace \<Rightarrow> error option \<times> trace" where
  "util_AtomicWriteJSON e path w tr =
     (map_option ExtErr (atomicWriteJSON e tr path w), tr @ [AtomicWriteJSON path w])"

definition saveState :: "env \<Rightarrow> WitnessManager \<Rightarrow> Witness \<Rightarrow> trace \<Rightarrow> error option \<times> trace" where
  "saveState e m w tr =
     (let dir = pathDir e (stateFile e m) in
      case os_MkdirAll e dir tr of
        (Some err, tr1) \<Rightarrow> (Some err, tr1)
      | (None, tr1) \<Rightarrow> util_AtomicWriteJSON e (stateFile e m) w tr1)"

text \<open>
  \<open>Start\<close> of the witness.  The guard is a chain of \<open>&&\<close>: the probe runs only when the
  state is running and the pid positive.
\<close>

definition witness_Start :: "env \<Rightarrow> WitnessManager \<Rightarrow> trace \<Rightarrow> error option \<times> trace" where
  "witness_Start e m tr =
     (case loadState e m tr of
        (Inl err, tr1) \<Rightarrow> (Some err, tr1)
      | (Inr w, tr1) \<Rightarrow>
          (case (if State w = StateRunning \<and> PID w > 0 then ProcessExists e (PID w) tr1
                 else (False, tr1)) of
             (True, tr2) \<Rightarrow> (Some ErrAlreadyRunning, tr2)
           | (False, tr2) \<Rightarrow>
               saveState e m
                 (w\<lparr>State := StateRunning, StartedAt := Some (now e tr2), PID := getpid e,
                    MonitoredPolecats := Polecats (w_rig m)\<rparr>) tr2))"

definition witness_Stop :: "env \<Rightarrow> WitnessManager \<Rightarrow> trace \<Rightarrow> error option \<times> trace" where
  "witness_Stop e m tr =
     (case loadState e m tr of
        (Inl err, tr1) \<Rightarrow> (Some err, tr1)
      | (Inr w, tr1) \<Rightarrow>
          if State w \<noteq> StateRunning then (Some ErrNotRunning, tr1)
          else
            (let tr2 = (if PID w > 0 \<and> PID w \<noteq> getpid e then
                          (case os_FindProcess e (PID w) tr1 of
                             (None, tr') \<Rightarrow> snd (Process_Signal e (PID w) (Some os_Interrupt) tr')
                           | (Some err, tr') \<Rightarrow> tr')
                        else tr1)
             in saveState e m (w\<lparr>State := StateStopped, PID := 0\<rparr>) tr2))"

text \<open>The calls that change the persisted witness document or its directory.\<close>

fun is_write :: "call \<Rightarrow> bool" where
  "is_write (AtomicWriteJSON path w) = True"
| "is_write (MkdirAll dir) = True"
| "is_write c = False"

section \<open>Package cmd: the crew commands\<close>

definition crewSessionName :: "string \<Rightarrow> string \<Rightarrow> string" where
  "crewSessionName rigName crewName = ''gt-'' @ rigName @ ''-crew-'' @ crewName"







section \<open>Vocabulary of the statements\<close>

text \<open>
  A registry is consistent when a session it has created, and that has not been killed
  since, is reported live.  This is asked of tmux, not of the code.
\<close>

definition registry_consistent :: "env \<Rightarrow> bool" where
  "registry_consistent e =
     (\<forall>pre k dir suf. newSession e pre k dir = None \<longrightarrow> KillSession k \<notin> set suf \<longrightarrow>
        hasSession e (pre @ NewSession k dir # suf) k = Inr True)"

text \<open>
  The working directory and the command \<open>Start\<close> settles on, the six calls of a \<open>Start\<close>
  that goes through, in the order of the source, the four answers its result depends on, and
  the calls of the follow-up prompt.
\<close>

definition Start_workDir :: "env \<Rightarrow> Manager \<Rightarrow> string \<Rightarrow> StartOptions \<Rightarrow> string" where
  "Start_workDir e m p opts = (if WorkDir opts = [] then polecatDir e m p else WorkDir opts)"

definition Start_command :: "StartOptions \<Rightarrow> string" where
  "Start_command opts =
     (if Command opts = [] then ''claude --dangerously-skip-permissions'' else Command opts)"

definition Start_calls :: "env \<Rightarrow> Manager \<Rightarrow> string \<Rightarrow> StartOptions \<Rightarrow> call list" where
  "Start_calls e m p opts =
     [Stat (polecatDir e m p), HasSession (sessionName m p),
      NewSession (sessionName m p) (Start_workDir e m p opts),
      SetEnvironment (sessionName m p) ''GT_RIG'' (Name (rig m)),
      SetEnvironment (sessionName m p) ''GT_POLECAT'' p,
      SendKeys (sessionName m p) (Start_command opts)]"

definition Start_answers_ok :: "env \<Rightarrow> Manager \<Rightarrow> string \<Rightarrow> StartOptions \<Rightarrow> trace \<Rightarrow> bool" where
  "Start_answers_ok e m p opts tr =
     (stat e tr (polecatDir e m p) = StatOk True
      \<and> hasSession e (tr @ take 1 (Start_calls e m p opts)) (sessionName m p) = Inr False
      \<and> newSession e (tr @ take 2 (Start_calls e m p opts)) (sessionName m p)
           (Start_workDir e m p opts) = None
      \<and> sendKeys e (tr @ take 5 (Start_calls e m p opts)) (sessionName m p)
           (Start_command opts) = None)"

definition Start_followup :: "env \<Rightarrow> Manager \<Rightarrow> string \<Rightarrow> StartOptions \<Rightarrow> trace \<Rightarrow> call list" where
  "Start_followup e m p opts tr =
     (if Issue opts = [] then []
      else [Sleep 500, HasSession (sessionName m p)] @
        (if hasSession e (tr @ Start_calls e m p opts @ [Sleep 500]) (sessionName m p) = Inr True
         then [SendKeysDebounced (sessionName m p) (''Work on issue: '' @ Issue opts)
                 (debounceMs (''Work on issue: '' @ Issue opts))]
         else []))"

text \<open>The liveness queries in a trace: every \<open>Stop\<close> begins with one.\<close>

fun is_HasSession :: "call \<Rightarrow> bool" where
  "is_HasSession (HasSession k) = True"
| "is_HasSession c = False"


section \<open>An in-memory environment\<close>

text \<open>
  A registry kept in memory, read off the trace: a session is live from its creation to its
  kill.  \<open>fake init dirs\<close> starts with the sessions \<open>init\<close> and has the directories
  \<open>dirs\<close>; paths are joined with a slash; no witness document exists; process 4242 is
  alive and every signal other than the nil one reaches it.
\<close>

fun registry_step :: "string list \<Rightarrow> call \<Rightarrow> string list" where
  "registry_step ks (NewSession k dir) = (if k \<in> set ks then ks else ks @ [k])"
| "registry_step ks (KillSession k) = removeAll k ks"
| "registry_step ks c = ks"

definition live_sessions :: "string list \<Rightarrow> trace \<Rightarrow> string list" where
  "live_sessions init tr = foldl registry_step init tr"

fun join_path :: "string list \<Rightarrow> string" where
  "join_path [] = []"
| "join_path [x] = x"
| "join_path (x # xs) = x @ ''/'' @ join_path xs"

definition dir_of :: "string \<Rightarrow> string" where
  "dir_of p = rev (tl (dropWhile (\<lambda>c. c \<noteq> CHR ''/'') (rev p)))"

definition gastown_rig :: Rig where
  "gastown_rig = \<lparr>Name = ''gastown'', Path = ''/town/gastown'', Polecats = [''joe'', ''max'']\<rparr>"

definition gastown :: Manager where
  "gastown = \<lparr>rig = gastown_rig\<rparr>"

definition gastown_witness :: WitnessManager where
  "gastown_witness = \<lparr>w_rig = gastown_rig, workDir = ''/town/gastown''\<rparr>"

definition fake :: "string list \<Rightarrow> string list \<Rightarrow> env" where
  "fake init dirs =
     \<lparr>hasSession = (\<lambda>tr k. Inr (k \<in> set (live_sessions init tr))),
      newSession = (\<lambda>tr k dir. if k \<in> set (live_sessions init tr)
                                then Some (''duplicate session: '' @ k) else None),
      killSession = (\<lambda>tr k. if k \<in> set (live_sessions init tr) then None
                             else Some (''session not found: '' @ k)),
      sendKeys = (\<lambda>tr k txt. None),
      sendKeysRaw = (\<lambda>tr k txt. None),
      sendKeysDebounced = (\<lambda>tr k txt ms. None),
      setEnvironment = (\<lambda>tr k var val. None),
      listSessions = (\<lambda>tr. Inr (live_sessions init tr)),
      stat = (\<lambda>tr p. if p \<in> set dirs then StatOk True else StatNotExist),
      mkdirAll = (\<lambda>tr dir. None),
      readFile = (\<lambda>tr p. ReadNotExist),
      jsonUnmarshal = (\<lambda>data. Inl ''unexpected end of JSON input''),
      atomicWriteJSON = (\<lambda>tr p w. None),
      findProcess = (\<lambda>tr pid. None),
      signal = (\<lambda>tr pid sig. case sig of None \<Rightarrow> Some ''os: unsupported signal type''
                               | Some s \<Rightarrow> if pid = 4242 then None
                                           else Some ''os: process already finished''),
      getpid = 777,
      now = (\<lambda>tr. 1700000000 + length tr),
      pathJoin = join_path,
      pathDir = dir_of,
      getCrewManagerRig = (\<lambda>tr r. Inr gastown_rig),
      crewGet = (\<lambda>tr name. if join_path [''/town/gastown/crew'', name] \<in> set dirs
                             then CrewFound \<lparr>Worker_Name = name,
                                             ClonePath = join_path [''/town/gastown/crew'', name]\<rparr>
                             else CrewNotFound),
      mailboxAppend = (\<lambda>tr dir msg. None)\<rparr>"

text \<open>The same, with \<open>KillSession\<close> failing on the keys \<open>bad\<close>.\<close>

definition kill_fails :: "string list \<Rightarrow> string list \<Rightarrow> env" where
  "kill_fails init bad =
     (fake init []) \<lparr>killSession := \<lambda>tr k. if k \<in> set bad then Some ''kill failed'' else None\<rparr>"

text \<open>
  The same with a witness document on disk: the state file holds what unmarshals to \<open>w\<close>.
  \<open>running_doc pid\<close> is the document of a witness recorded as running under \<open>pid\<close>.
\<close>

definition persisted :: "Witness \<Rightarrow> env" where
  "persisted w =
     (fake [] [])
       \<lparr>readFile := (\<lambda>tr p. if p = ''/town/gastown/.runtime/witness.json''
                             then ReadData ''witness.json'' else ReadNotExist),
        jsonUnmarshal := (\<lambda>data. Inr w)\<rparr>"

definition running_doc :: "int \<Rightarrow> Witness" where
  "running_doc pid =
     \<lparr>RigName = ''gastown'', State = StateRunning, PID = pid, StartedAt = Some 1699990000,
      MonitoredPolecats = [''joe'']\<rparr>"

section \<open>Properties\<close>

lemmas tmux_defs = tmux_HasSession_def tmux_NewSession_def tmux_KillSession_def tmux_SendKeys_def
  tmux_SendKeysRaw_def tmux_SendKeysDebounced_def tmux_SetEnvironment_def tmux_ListSessions_def
  time_Sleep_def

lemma Inject_trace:
  "snd (Inject e m p msg tr) =
     tr @ HasSession (sessionName m p) #
       (if hasSession e tr (sessionName m p) = Inr True
        then [SendKeysDebounced (sessionName m p) msg (debounceMs msg)] else [])"
  by (auto simp: Inject_def Let_def tmux_defs split: sum.splits bool.splits)

lemma Start_no_polecat:
  "stat e tr (polecatDir e m p) \<noteq> StatOk True \<Longrightarrow>
   Start e m p opts tr =
     (Some (Errorf [] ErrPolecatNotFound ('': '' @ p)), tr @ [Stat (polecatDir e m p)])"
  by (auto simp: Start_def hasPolecat_def Let_def split: stat_result.splits bool.splits)

lemma Start_running:
  "stat e tr (polecatDir e m p) = StatOk True \<Longrightarrow>
   hasSession e (tr @ [Stat (polecatDir e m p)]) (sessionName m p) = Inr True \<Longrightarrow>
   Start e m p opts tr =
     (Some (Errorf [] ErrSessionRunning ('': '' @ sessionName m p)),
      tr @ [Stat (polecatDir e m p), HasSession (sessionName m p)])"
  by (simp add: Start_def hasPolecat_def Let_def tmux_defs)

lemma Start_unfold:
  "Start e m p opts tr =
     (if stat e tr (polecatDir e m p) \<noteq> StatOk True
      then (Some (Errorf [] ErrPolecatNotFound ('': '' @ p)), tr @ [Stat (polecatDir e m p)])
      else case hasSession e (tr @ take 1 (Start_calls e m p opts)) (sessionName m p) of
        Inl msg \<Rightarrow> (Some (Errorf ''checking session: '' (ExtErr msg) []),
                    tr @ take 2 (Start_calls e m p opts))
      | Inr True \<Rightarrow> (Some (Errorf [] ErrSessionRunning ('': '' @ sessionName m p)),
                    tr @ take 2 (Start_calls e m p opts))
      | Inr False \<Rightarrow>
         (case newSession e (tr @ take 2 (Start_calls e m p opts)) (sessionName m p)
                 (Start_workDir e m p opts) of
            Some msg \<Rightarrow> (Some (Errorf ''creating session: '' (ExtErr msg) []),
                         tr @ take 3 (Start_calls e m p opts))
          | None \<Rightarrow>
             (case sendKeys e (tr @ take 5 (Start_calls e m p opts)) (sessionName m p)
                     (Start_command opts) of
                Some msg \<Rightarrow> (Some (Errorf ''sending command: '' (ExtErr msg) []),
                             tr @ Start_calls e m p opts)
              | None \<Rightarrow> (None, tr @ Start_calls e m p opts @ Start_followup e m p opts tr))))"
  unfolding Start_def hasPolecat_def Let_def tmux_defs Inject_trace Start_calls_def
    Start_followup_def Start_workDir_def [symmetric] Start_command_def [symmetric]
  by (simp split: stat_result.splits bool.splits sum.splits option.splits)

lemma Start_proceeds:
  "Start_answers_ok e m p opts tr \<Longrightarrow>
   Start e m p opts tr = (None, tr @ Start_calls e m p opts @ Start_followup e m p opts tr)"
  by (simp add: Start_unfold Start_answers_ok_def)

lemma Start_success:
  "fst (Start e m p opts tr) = None \<Longrightarrow> Start_answers_ok e m p opts tr"
  by (simp add: Start_unfold Start_answers_ok_def
      split: if_splits sum.splits bool.splits option.splits)

lemmas fake_simps = fake_def live_sessions_def sessionName_def polecatDir_def gastown_def
  gastown_rig_def gastown_witness_def

lemmas Start_eval = Start_unfold Start_calls_def Start_followup_def Start_workDir_def
  Start_command_def

lemma registry_consistentD:
  "registry_consistent e \<Longrightarrow> newSession e pre k dir = None \<Longrightarrow> KillSession k \<notin> set suf \<Longrightarrow>
   hasSession e (pre @ NewSession k dir # suf) k = Inr True"
  unfolding registry_consistent_def by blast

lemma registry_step_keeps:
  "k \<in> set ks \<Longrightarrow> KillSession k \<notin> set suf \<Longrightarrow> k \<in> set (foldl registry_step ks suf)"
proof (induction suf arbitrary: ks)
  case Nil
  then show ?case by simp
next
  case (Cons c suf)
  from Cons.prems have "k \<in> set (registry_step ks c)"
    by (cases c) auto
  with Cons show ?case by simp
qed

lemma fake_registry_consistent: "registry_consistent (fake init dirs)"
  unfolding registry_consistent_def
  by (auto simp: fake_def live_sessions_def intro!: registry_step_keeps)


lemma debounceMs_min:
  "debounceMs message = min (200 + (int (length message) div 1024) * 100) 1500"
  by (simp add: debounceMs_def Let_def min_def)

lemma debounceMs_mono:
  assumes "length a \<le> length b"
  shows "debounceMs a \<le> debounceMs b"
proof -
  from assms have "int (length a) div 1024 \<le> int (length b) div 1024"
    by (intro zdiv_mono1) simp_all
  then show ?thesis
    unfolding debounceMs_min by (simp add: min_def)
qed

text \<open>
  C2.  On a session that tmux reports running, \<open>Inject\<close> sends the message with the debounce
  \<open>min (200 + (len div 1024) * 100) 1500\<close> milliseconds and returns what that send returns.
  The delay never decreases when the message grows, never exceeds 1500, and is 200, 300,
  1200 and 1500 for messages of 0, 1024, 10240 and 100000 bytes.
\<close>

theorem Inject_debounce:
  "(hasSession e tr (sessionName m p) = Inr True \<longrightarrow>
      Inject e m p msg tr =
        (map_option ExtErr
           (sendKeysDebounced e (tr @ [HasSession (sessionName m p)]) (sessionName m p) msg
              (min (200 + (int (length msg) div 1024) * 100) 1500)),
         tr @ [HasSession (sessionName m p),
               SendKeysDebounced (sessionName m p) msg
                 (min (200 + (int (length msg) div 1024) * 100) 1500)]))
   \<and> (length a \<le> length b \<longrightarrow> debounceMs a \<le> debounceMs b)
   \<and> debounceMs msg \<le> 1500
   \<and> debounceMs [] = 200
   \<and> debounceMs (replicate 1024 c) = 300
   \<and> debounceMs (replicate 10240 c) = 1200
   \<and> debounceMs (replicate 100000 c) = 1500"
proof (intro conjI impI)
  assume "hasSession e tr (sessionName m p) = Inr True"
  then show "Inject e m p msg tr =
        (map_option ExtErr
           (sendKeysDebounced e (tr @ [HasSession (sessionName m p)]) (sessionName m p) msg
              (min (200 + (int (length msg) div 1024) * 100) 1500)),
         tr @ [HasSession (sessionName m p),
               SendKeysDebounced (sessionName m p) msg
                 (min (200 + (int (length msg) div 1024) * 100) 1500)])"
    by (simp add: Inject_def Let_def tmux_HasSession_def tmux_SendKeysDebounced_def
        debounceMs_min)
next
  assume "length a \<le> length b"
  then show "debounceMs a \<le> debounceMs b" by (rule debounceMs_mono)
next
  show "debounceMs msg \<le> 1500" by (simp add: debounceMs_min)
  show "debounceMs [] = 200" by (simp add: debounceMs_def)
  show "debounceMs (replicate 1024 c) = 300" by (simp add: debounceMs_def)
  show "debounceMs (replicate 10240 c) = 1200" by (simp add: debounceMs_def)
  show "debounceMs (replicate 100000 c) = 1500" by (simp add: debounceMs_def)
qed

theorem Inject_debounce_witness:
  "hasSession (fake [''gt-gastown-joe''] []) [] (sessionName gastown ''joe'') = Inr True
   \<and> Inject (fake [''gt-gastown-joe''] []) gastown ''joe'' ''hello'' [] =
       (None, [HasSession ''gt-gastown-joe'', SendKeysDebounced ''gt-gastown-joe'' ''hello'' 200])
   \<and> length ''ab'' \<le> length ''abc'' \<and> debounceMs ''ab'' \<le> debounceMs ''abc''"
  using Inject_debounce [of "fake [''gt-gastown-joe''] []" "[]" gastown "''joe''" "''hello''"
      "''ab''" "''abc''"]
  by (simp add: fake_def live_sessions_def sessionName_def gastown_def gastown_rig_def)

text \<open>
  C5.  \<open>Start\<close> first looks for the polecat's clone directory: when \<open>os.Stat\<close> does not
  report a directory there (the path is absent, cannot be read, or is not a directory) it
  returns \<open>ErrPolecatNotFound\<close>, wrapped with the name, and has asked tmux nothing.  With the
  directory present, it returns \<open>ErrSessionRunning\<close>, wrapped with the key, when tmux reports
  a live session at the key.  Hence, on a consistent registry, after a \<open>Start\<close> that went
  through, a second \<open>Start\<close> of the same polecat (with any options, after any calls \<open>mid\<close>
  that do not kill the session, the directory still there) returns \<open>ErrSessionRunning\<close>.
\<close>

theorem Start_guards:
  "(stat e tr (polecatDir e m p) \<noteq> StatOk True \<longrightarrow>
      Start e m p opts tr =
        (Some (Errorf [] ErrPolecatNotFound ('': '' @ p)), tr @ [Stat (polecatDir e m p)]))
   \<and> (stat e tr (polecatDir e m p) = StatOk True \<longrightarrow>
      hasSession e (tr @ [Stat (polecatDir e m p)]) (sessionName m p) = Inr True \<longrightarrow>
      Start e m p opts tr =
        (Some (Errorf [] ErrSessionRunning ('': '' @ sessionName m p)),
         tr @ [Stat (polecatDir e m p), HasSession (sessionName m p)]))
   \<and> (registry_consistent e \<longrightarrow> fst (Start e m p opts tr) = None \<longrightarrow>
      KillSession (sessionName m p) \<notin> set mid \<longrightarrow>
      stat e (snd (Start e m p opts tr) @ mid) (polecatDir e m p) = StatOk True \<longrightarrow>
      fst (Start e m p opts' (snd (Start e m p opts tr) @ mid)) =
        Some (Errorf [] ErrSessionRunning ('': '' @ sessionName m p)))"
proof (intro conjI impI)
  assume "stat e tr (polecatDir e m p) \<noteq> StatOk True"
  then show "Start e m p opts tr =
        (Some (Errorf [] ErrPolecatNotFound ('': '' @ p)), tr @ [Stat (polecatDir e m p)])"
    by (rule Start_no_polecat)
next
  assume "stat e tr (polecatDir e m p) = StatOk True"
    and "hasSession e (tr @ [Stat (polecatDir e m p)]) (sessionName m p) = Inr True"
  then show "Start e m p opts tr =
        (Some (Errorf [] ErrSessionRunning ('': '' @ sessionName m p)),
         tr @ [Stat (polecatDir e m p), HasSession (sessionName m p)])"
    by (rule Start_running)
next
  let ?k = "sessionName m p" and ?d = "polecatDir e m p"
  let ?tr1 = "snd (Start e m p opts tr)"
  let ?pre = "tr @ [Stat ?d, HasSession ?k]"
  let ?suf = "[SetEnvironment ?k ''GT_RIG'' (Name (rig m)), SetEnvironment ?k ''GT_POLECAT'' p,
               SendKeys ?k (Start_command opts)] @ Start_followup e m p opts tr"
  assume cons: "registry_consistent e" and ok: "fst (Start e m p opts tr) = None"
    and mid: "KillSession ?k \<notin> set mid" and dir: "stat e (?tr1 @ mid) ?d = StatOk True"
  from Start_success [OF ok] have aok: "Start_answers_ok e m p opts tr" .
  then have new: "newSession e ?pre ?k (Start_workDir e m p opts) = None"
    by (simp add: Start_answers_ok_def Start_calls_def)
  from Start_proceeds [OF aok]
  have tr1: "?tr1 = ?pre @ NewSession ?k (Start_workDir e m p opts) # ?suf"
    by (simp add: Start_calls_def)
  have "KillSession ?k \<notin> set (?suf @ mid @ [Stat ?d])"
    using mid by (simp add: Start_followup_def)
  from registry_consistentD [OF cons new this]
  have "hasSession e ((?tr1 @ mid) @ [Stat ?d]) ?k = Inr True"
    by (subst tr1) simp
  with dir show "fst (Start e m p opts' (?tr1 @ mid)) =
        Some (Errorf [] ErrSessionRunning ('': '' @ ?k))"
    by (simp add: Start_running)
qed

theorem Start_guards_witness:
  "stat (fake [] [''/town/gastown/polecats/joe'']) []
       (polecatDir (fake [] [''/town/gastown/polecats/joe'']) gastown ''max'') \<noteq> StatOk True
   \<and> Start (fake [] [''/town/gastown/polecats/joe'']) gastown ''max''
        \<lparr>WorkDir = [], Issue = [], Command = []\<rparr> [] =
       (Some (Errorf [] ErrPolecatNotFound '': max''), [Stat ''/town/gastown/polecats/max''])
   \<and> Start (fake [''gt-gastown-joe''] [''/town/gastown/polecats/joe'']) gastown ''joe''
        \<lparr>WorkDir = [], Issue = [], Command = []\<rparr> [] =
       (Some (Errorf [] ErrSessionRunning '': gt-gastown-joe''),
        [Stat ''/town/gastown/polecats/joe'', HasSession ''gt-gastown-joe''])
   \<and> registry_consistent (fake [] [''/town/gastown/polecats/joe''])
   \<and> Start (fake [] [''/town/gastown/polecats/joe'']) gastown ''joe''
        \<lparr>WorkDir = [], Issue = [], Command = []\<rparr> [] =
       (None, [Stat ''/town/gastown/polecats/joe'', HasSession ''gt-gastown-joe'',
               NewSession ''gt-gastown-joe'' ''/town/gastown/polecats/joe'',
               SetEnvironment ''gt-gastown-joe'' ''GT_RIG'' ''gastown'',
               SetEnvironment ''gt-gastown-joe'' ''GT_POLECAT'' ''joe'',
               SendKeys ''gt-gastown-joe'' ''claude --dangerously-skip-permissions''])
   \<and> fst (Start (fake [] [''/town/gastown/polecats/joe'']) gastown ''joe''
        \<lparr>WorkDir = [], Issue = ''gt-7'', Command = ''claude''\<rparr>
        (snd (Start (fake [] [''/town/gastown/polecats/joe'']) gastown ''joe''
               \<lparr>WorkDir = [], Issue = [], Command = []\<rparr> []) @ [ListSessions])) =
       Some (Errorf [] ErrSessionRunning '': gt-gastown-joe'')"
  using Start_guards [of "fake [] [''/town/gastown/polecats/joe'']" "[]" gastown "''max''"
      "\<lparr>WorkDir = [], Issue = [], Command = []\<rparr>"]
    Start_guards [of "fake [''gt-gastown-joe''] [''/town/gastown/polecats/joe'']" "[]" gastown
      "''joe''" "\<lparr>WorkDir = [], Issue = [], Command = []\<rparr>"]
    Start_guards [of "fake [] [''/town/gastown/polecats/joe'']" "[]" gastown "''joe''"
      "\<lparr>WorkDir = [], Issue = [], Command = []\<rparr>" "[ListSessions]"
      "\<lparr>WorkDir = [], Issue = ''gt-7'', Command = ''claude''\<rparr>"]
    fake_registry_consistent [of "[]" "[''/town/gastown/polecats/joe'']"]
  by (simp add: fake_simps Start_eval)

lemma Start_order_folded:
  "(fst (Start e m p opts tr) = None) = Start_answers_ok e m p opts tr
   \<and> (fst (Start e m p opts tr) = None \<longrightarrow>
        snd (Start e m p opts tr) = tr @ Start_calls e m p opts @ Start_followup e m p opts tr)"
  using Start_proceeds [of e m p opts tr] Start_success [of e m p opts tr] by auto

text \<open>
  C6.  Whether \<open>Start\<close> returns nil depends on four answers only: the directory is there,
  no session is live, the session was created, the launch command was sent; nothing the
  follow-up prompt meets can make it fail.  When it returns nil, its calls were, in this
  order: the directory check, the liveness check, the creation of the session, the two
  identity variables \<open>GT_RIG\<close> and \<open>GT_POLECAT\<close>, the launch command; then, only when an
  issue is given, a sleep of 500 ms and \<open>Inject\<close> of the prompt (its own liveness check,
  then the debounced send when the session is reported live).
\<close>

theorem Start_effect_order:
  "(fst (Start e m p opts tr) = None) = Start_answers_ok e m p opts tr
   \<and> (fst (Start e m p opts tr) = None \<longrightarrow>
     (let k = sessionName m p;
          calls = [Stat (polecatDir e m p), HasSession k,
                   NewSession k (if WorkDir opts = [] then polecatDir e m p else WorkDir opts),
                   SetEnvironment k ''GT_RIG'' (Name (rig m)),
                   SetEnvironment k ''GT_POLECAT'' p,
                   SendKeys k (if Command opts = [] then ''claude --dangerously-skip-permissions''
                               else Command opts)];
          prompt = ''Work on issue: '' @ Issue opts
      in snd (Start e m p opts tr) =
           tr @ calls @
             (if Issue opts = [] then []
              else [Sleep 500, HasSession k] @
                (if hasSession e (tr @ calls @ [Sleep 500]) k = Inr True
                 then [SendKeysDebounced k prompt (debounceMs prompt)] else []))))"
proof (intro conjI impI)
  show "(fst (Start e m p opts tr) = None) = Start_answers_ok e m p opts tr"
    using Start_order_folded [of e m p opts tr] by blast
next
  assume "fst (Start e m p opts tr) = None"
  with Start_order_folded [of e m p opts tr]
  have "snd (Start e m p opts tr) = tr @ Start_calls e m p opts @ Start_followup e m p opts tr"
    by blast
  then show "let k = sessionName m p;
          calls = [Stat (polecatDir e m p), HasSession k,
                   NewSession k (if WorkDir opts = [] then polecatDir e m p else WorkDir opts),
                   SetEnvironment k ''GT_RIG'' (Name (rig m)),
                   SetEnvironment k ''GT_POLECAT'' p,
                   SendKeys k (if Command opts = [] then ''claude --dangerously-skip-permissions''
                               else Command opts)];
          prompt = ''Work on issue: '' @ Issue opts
      in snd (Start e m p opts tr) =
           tr @ calls @
             (if Issue opts = [] then []
              else [Sleep 500, HasSession k] @
                (if hasSession e (tr @ calls @ [Sleep 500]) k = Inr True
                 then [SendKeysDebounced k prompt (debounceMs prompt)] else []))"
    unfolding Let_def Start_calls_def Start_followup_def Start_workDir_def Start_command_def
    by (simp only:)
qed

theorem Start_effect_order_witness:
  "Start_answers_ok ((fake [] [''/town/gastown/polecats/joe''])
            \<lparr>sendKeysDebounced := \<lambda>tr k txt ms. Some ''paste failed''\<rparr>) gastown ''joe''
        \<lparr>WorkDir = [], Issue = ''gt-7'', Command = []\<rparr> []
   \<and> Start ((fake [] [''/town/gastown/polecats/joe''])
            \<lparr>sendKeysDebounced := \<lambda>tr k txt ms. Some ''paste failed''\<rparr>) gastown ''joe''
        \<lparr>WorkDir = [], Issue = ''gt-7'', Command = []\<rparr> [] =
       (None, [Stat ''/town/gastown/polecats/joe'', HasSession ''gt-gastown-joe'',
               NewSession ''gt-gastown-joe'' ''/town/gastown/polecats/joe'',
               SetEnvironment ''gt-gastown-joe'' ''GT_RIG'' ''gastown'',
               SetEnvironment ''gt-gastown-joe'' ''GT_POLECAT'' ''joe'',
               SendKeys ''gt-gastown-joe'' ''claude --dangerously-skip-permissions'',
               Sleep 500, HasSession ''gt-gastown-joe'',
               SendKeysDebounced ''gt-gastown-joe'' ''Work on issue: gt-7'' 200])
   \<and> fst (Inject ((fake [] [''/town/gastown/polecats/joe''])
            \<lparr>sendKeysDebounced := \<lambda>tr k txt ms. Some ''paste failed''\<rparr>) gastown ''joe''
          ''Work on issue: gt-7''
          [Stat ''/town/gastown/polecats/joe'', HasSession ''gt-gastown-joe'',
           NewSession ''gt-gastown-joe'' ''/town/gastown/polecats/joe'',
           SetEnvironment ''gt-gastown-joe'' ''GT_RIG'' ''gastown'',
           SetEnvironment ''gt-gastown-joe'' ''GT_POLECAT'' ''joe'',
           SendKeys ''gt-gastown-joe'' ''claude --dangerously-skip-permissions'',
           Sleep 500]) = Some (ExtErr ''paste failed'')"
  using Start_effect_order [of "(fake [] [''/town/gastown/polecats/joe''])
            \<lparr>sendKeysDebounced := \<lambda>tr k txt ms. Some ''paste failed''\<rparr>" gastown "''joe''"
        "\<lparr>WorkDir = [], Issue = ''gt-7'', Command = []\<rparr>" "[]"]
  by (simp add: fake_simps Start_eval Start_answers_ok_def Inject_def Let_def tmux_defs
      debounceMs_def)

text \<open>
  C7.  \<open>Stop\<close> returns \<open>ErrSessionNotFound\<close> when tmux reports no live session at the key.
  When it reports one, the calls are: unless \<open>force\<close>, the raw key sequence \<open>C-c\<close> and a
  sleep of 100 ms; then, in every case and whatever the key sequence's outcome (its result
  is dropped), \<open>KillSession\<close>, whose error, wrapped, is what \<open>Stop\<close> returns.
\<close>

theorem Stop_kill_always:
  "(hasSession e tr (sessionName m p) = Inr False \<longrightarrow>
      Stop e m p force tr = (Some ErrSessionNotFound, tr @ [HasSession (sessionName m p)]))
   \<and> (hasSession e tr (sessionName m p) = Inr True \<longrightarrow>
      (let k = sessionName m p;
           tr2 = tr @ [HasSession k] @ (if force then [] else [SendKeysRaw k ''C-c'', Sleep 100])
       in Stop e m p force tr =
            (map_option (\<lambda>msg. Errorf ''killing session: '' (ExtErr msg) []) (killSession e tr2 k),
             tr2 @ [KillSession k])))"
  by (auto simp: Stop_def Let_def tmux_defs split: option.splits)

theorem Stop_kill_always_witness:
  "hasSession (fake [] []) [] (sessionName gastown ''joe'') = Inr False
   \<and> Stop (fake [] []) gastown ''joe'' False [] =
       (Some ErrSessionNotFound, [HasSession ''gt-gastown-joe''])
   \<and> hasSession ((fake [''gt-gastown-joe''] []) \<lparr>sendKeysRaw := \<lambda>tr k txt. Some ''no server''\<rparr>) []
        (sessionName gastown ''joe'') = Inr True
   \<and> Stop ((fake [''gt-gastown-joe''] []) \<lparr>sendKeysRaw := \<lambda>tr k txt. Some ''no server''\<rparr>)
        gastown ''joe'' False [] =
       (None, [HasSession ''gt-gastown-joe'', SendKeysRaw ''gt-gastown-joe'' ''C-c'', Sleep 100,
               KillSession ''gt-gastown-joe''])"
  using Stop_kill_always [of "fake [] []" "[]" gastown "''joe''" False]
    Stop_kill_always [of "(fake [''gt-gastown-joe''] []) \<lparr>sendKeysRaw := \<lambda>tr k txt. Some ''no server''\<rparr>"
      "[]" gastown "''joe''" False]
  by (simp add: fake_def live_sessions_def sessionName_def gastown_def gastown_rig_def Let_def)

lemma HasPrefix_append: "HasPrefix (pre @ x) pre"
  by (simp add: HasPrefix_def)

lemma TrimPrefix_append: "TrimPrefix (pre @ x) pre = x"
  by (simp add: TrimPrefix_def HasPrefix_def)

lemma List_loop_eq:
  "List_loop m pre ks infos =
     infos @ map (\<lambda>k. \<lparr>Polecat = drop (length pre) k, SessionID = k, Running = True,
                        Info_RigName = Name (rig m)\<rparr>) (filter (\<lambda>k. HasPrefix k pre) ks)"
  by (induction ks arbitrary: infos) (simp_all add: TrimPrefix_def)

lemma List_unfold:
  "listSessions e tr = Inr ks \<Longrightarrow>
   List e m tr =
     (Inr (map (\<lambda>k. \<lparr>Polecat = drop (length (''gt-'' @ Name (rig m) @ ''-'')) k, SessionID = k,
                       Running = True, Info_RigName = Name (rig m)\<rparr>)
            (filter (\<lambda>k. HasPrefix k (''gt-'' @ Name (rig m) @ ''-'')) ks)),
      tr @ [ListSessions])"
  by (simp add: List_def tmux_ListSessions_def List_loop_eq)

lemma dash_split:
  "CHR ''-'' \<notin> set r \<Longrightarrow> CHR ''-'' \<notin> set r' \<Longrightarrow>
   (r @ CHR ''-'' # x = r' @ CHR ''-'' # x') = (r = r' \<and> x = x')"
proof (induction r arbitrary: r')
  case Nil
  then show ?case by (cases r') auto
next
  case (Cons a r)
  then show ?case by (cases r') auto
qed

text \<open>
  C1, as the code has it.  Within one rig the key determines the worker's name in each
  role, and the key of a polecat is the key of a crew worker exactly when the polecat's name
  is \<open>crew-\<close> followed by the crew worker's name.  Across rigs whose names contain no dash
  the key determines the rig as well: polecat keys and crew keys are injective in rig and
  name, and a polecat key equals a crew key only for the same rig and a polecat named
  \<open>crew-\<close> plus the crew name.  So two distinct identities share a key only when a
  polecat's name starts with \<open>crew-\<close> or a rig's name contains a dash.  \<open>List\<close> reports
  every registry key that starts with \<open>gt-{rig}-\<close>, in the registry's order, and gives
  the rest of the key as the polecat's name, so the key of polecat \<open>p\<close> is listed under
  \<open>p\<close>; the keys carry no mark of the role, and \<open>List\<close> reports the session of crew
  worker \<open>c\<close> as a polecat named \<open>crew-c\<close>.
\<close>

theorem session_keys_injective:
  "(sessionName m p = sessionName m p') = (p = p')
   \<and> (crewSessionName r c = crewSessionName r c') = (c = c')
   \<and> (sessionName m p = crewSessionName (Name (rig m)) c) = (p = ''crew-'' @ c)
   \<and> (CHR ''-'' \<notin> set (Name (rig m)) \<longrightarrow> CHR ''-'' \<notin> set (Name (rig m')) \<longrightarrow>
        (sessionName m p = sessionName m' p') = (Name (rig m) = Name (rig m') \<and> p = p'))
   \<and> (CHR ''-'' \<notin> set r \<longrightarrow> CHR ''-'' \<notin> set r' \<longrightarrow>
        (crewSessionName r c = crewSessionName r' c') = (r = r' \<and> c = c'))
   \<and> (CHR ''-'' \<notin> set (Name (rig m)) \<longrightarrow> CHR ''-'' \<notin> set r \<longrightarrow>
        (sessionName m p = crewSessionName r c) = (Name (rig m) = r \<and> p = ''crew-'' @ c))
   \<and> (listSessions e tr = Inr ks \<longrightarrow>
        List e m tr =
          (Inr (map (\<lambda>k. \<lparr>Polecat = drop (length (''gt-'' @ Name (rig m) @ ''-'')) k,
                            SessionID = k, Running = True, Info_RigName = Name (rig m)\<rparr>)
                 (filter (\<lambda>k. HasPrefix k (''gt-'' @ Name (rig m) @ ''-'')) ks)),
           tr @ [ListSessions]))
   \<and> (listSessions e tr = Inr [sessionName m p] \<longrightarrow>
        fst (List e m tr) =
          Inr [\<lparr>Polecat = p, SessionID = sessionName m p, Running = True,
                Info_RigName = Name (rig m)\<rparr>])
   \<and> (listSessions e tr = Inr [crewSessionName (Name (rig m)) c] \<longrightarrow>
        fst (List e m tr) =
          Inr [\<lparr>Polecat = ''crew-'' @ c, SessionID = crewSessionName (Name (rig m)) c,
                Running = True, Info_RigName = Name (rig m)\<rparr>])"
proof (intro conjI impI)
  show "(sessionName m p = sessionName m p') = (p = p')"
    by (simp add: sessionName_def)
  show "(crewSessionName r c = crewSessionName r c') = (c = c')"
    by (simp add: crewSessionName_def)
  show "(sessionName m p = crewSessionName (Name (rig m)) c) = (p = ''crew-'' @ c)"
    by (simp add: sessionName_def crewSessionName_def)
next
  assume "CHR ''-'' \<notin> set (Name (rig m))" and "CHR ''-'' \<notin> set (Name (rig m'))"
  then show "(sessionName m p = sessionName m' p') = (Name (rig m) = Name (rig m') \<and> p = p')"
    using dash_split [of "Name (rig m)" "Name (rig m')" p p'] by (simp add: sessionName_def)
next
  assume "CHR ''-'' \<notin> set r" and "CHR ''-'' \<notin> set r'"
  then show "(crewSessionName r c = crewSessionName r' c') = (r = r' \<and> c = c')"
    using dash_split [of r r' "''crew-'' @ c" "''crew-'' @ c'"]
    by (simp add: crewSessionName_def)
next
  assume "CHR ''-'' \<notin> set (Name (rig m))" and "CHR ''-'' \<notin> set r"
  then show "(sessionName m p = crewSessionName r c) = (Name (rig m) = r \<and> p = ''crew-'' @ c)"
    using dash_split [of "Name (rig m)" r p "''crew-'' @ c"]
    by (simp add: sessionName_def crewSessionName_def)
next
  assume "listSessions e tr = Inr ks"
  then show "List e m tr =
          (Inr (map (\<lambda>k. \<lparr>Polecat = drop (length (''gt-'' @ Name (rig m) @ ''-'')) k,
                            SessionID = k, Running = True, Info_RigName = Name (rig m)\<rparr>)
                 (filter (\<lambda>k. HasPrefix k (''gt-'' @ Name (rig m) @ ''-'')) ks)),
           tr @ [ListSessions])"
    by (rule List_unfold)
next
  assume "listSessions e tr = Inr [sessionName m p]"
  then show "fst (List e m tr) =
          Inr [\<lparr>Polecat = p, SessionID = sessionName m p, Running = True,
                Info_RigName = Name (rig m)\<rparr>]"
    by (simp add: List_unfold) (simp add: sessionName_def HasPrefix_def)
next
  assume "listSessions e tr = Inr [crewSessionName (Name (rig m)) c]"
  then show "fst (List e m tr) =
          Inr [\<lparr>Polecat = ''crew-'' @ c, SessionID = crewSessionName (Name (rig m)) c,
                Running = True, Info_RigName = Name (rig m)\<rparr>]"
    by (simp add: List_unfold) (simp add: crewSessionName_def HasPrefix_def)
qed

theorem session_keys_injective_witness:
  "CHR ''-'' \<notin> set (Name (rig \<lparr>rig = \<lparr>Name = ''x'', Path = ''/town/x'', Polecats = [''joe'']\<rparr>\<rparr>))
   \<and> CHR ''-'' \<notin> set (Name (rig \<lparr>rig = \<lparr>Name = ''xy'', Path = ''/town/xy'', Polecats = []\<rparr>\<rparr>))
   \<and> CHR ''-'' \<notin> set ''x'' \<and> CHR ''-'' \<notin> set ''xy''
   \<and> sessionName \<lparr>rig = \<lparr>Name = ''x'', Path = ''/town/x'', Polecats = [''joe'']\<rparr>\<rparr> ''joe'' \<noteq>
       sessionName \<lparr>rig = \<lparr>Name = ''xy'', Path = ''/town/xy'', Polecats = []\<rparr>\<rparr> ''joe''
   \<and> crewSessionName ''x'' ''a'' \<noteq> crewSessionName ''xy'' ''a''
   \<and> sessionName \<lparr>rig = \<lparr>Name = ''x'', Path = ''/town/x'', Polecats = [''joe'']\<rparr>\<rparr> ''joe'' \<noteq>
       crewSessionName ''xy'' ''a''
   \<and> listSessions (fake [''gt-x-joe'', ''gt-xy-max'', ''gt-x-crew-a''] []) [] =
       Inr [''gt-x-joe'', ''gt-xy-max'', ''gt-x-crew-a'']
   \<and> List (fake [''gt-x-joe'', ''gt-xy-max'', ''gt-x-crew-a''] [])
        \<lparr>rig = \<lparr>Name = ''x'', Path = ''/town/x'', Polecats = [''joe'']\<rparr>\<rparr> [] =
       (Inr [\<lparr>Polecat = ''joe'', SessionID = ''gt-x-joe'', Running = True, Info_RigName = ''x''\<rparr>,
             \<lparr>Polecat = ''crew-a'', SessionID = ''gt-x-crew-a'', Running = True,
              Info_RigName = ''x''\<rparr>],
        [ListSessions])
   \<and> listSessions (fake [''gt-x-joe''] []) [] =
       Inr [sessionName \<lparr>rig = \<lparr>Name = ''x'', Path = ''/town/x'', Polecats = [''joe'']\<rparr>\<rparr> ''joe'']
   \<and> listSessions (fake [''gt-x-crew-a''] []) [] =
       Inr [crewSessionName (Name (rig \<lparr>rig = \<lparr>Name = ''x'', Path = ''/town/x'', Polecats = [''joe'']\<rparr>\<rparr>)) ''a'']"
  using session_keys_injective [of "\<lparr>rig = \<lparr>Name = ''x'', Path = ''/town/x'', Polecats = [''joe'']\<rparr>\<rparr>"
      "''joe''" "''joe''" "''x''" "''a''" "''a''"
      "\<lparr>rig = \<lparr>Name = ''xy'', Path = ''/town/xy'', Polecats = []\<rparr>\<rparr>" "''xy''"
      "fake [''gt-x-joe'', ''gt-xy-max'', ''gt-x-crew-a''] []"
      "[]" "[''gt-x-joe'', ''gt-xy-max'', ''gt-x-crew-a'']"]
    session_keys_injective [of "\<lparr>rig = \<lparr>Name = ''x'', Path = ''/town/x'', Polecats = [''joe'']\<rparr>\<rparr>"
      "''joe''" "''joe''" "''xy''" "''a''" "''a''"
      "\<lparr>rig = \<lparr>Name = ''xy'', Path = ''/town/xy'', Polecats = []\<rparr>\<rparr>" "''x''"
      "fake [''gt-x-joe''] []" "[]" "[]"]
    session_keys_injective [of "\<lparr>rig = \<lparr>Name = ''x'', Path = ''/town/x'', Polecats = [''joe'']\<rparr>\<rparr>"
      "''joe''" "''joe''" "''x''" "''a''" "''a''"
      "\<lparr>rig = \<lparr>Name = ''xy'', Path = ''/town/xy'', Polecats = []\<rparr>\<rparr>" "''xy''"
      "fake [''gt-x-crew-a''] []" "[]" "[]"]
  by (simp add: fake_def live_sessions_def sessionName_def crewSessionName_def HasPrefix_def)

text \<open>
  C1, as stated, fails: on rig \<open>x\<close> the polecat \<open>crew-a\<close> and the crew worker \<open>a\<close> are
  two identities with the one key \<open>gt-x-crew-a\<close>, which \<open>List\<close> reports as a polecat
  named \<open>crew-a\<close>; and polecat \<open>c\<close> of rig \<open>a-b\<close> shares its key with polecat \<open>b-c\<close> of
  rig \<open>a\<close>.
\<close>

theorem session_keys_collide:
  "''crew-a'' \<noteq> ''a''
   \<and> sessionName \<lparr>rig = \<lparr>Name = ''x'', Path = ''/town/x'', Polecats = []\<rparr>\<rparr> ''crew-a'' =
       crewSessionName ''x'' ''a''
   \<and> crewSessionName ''x'' ''a'' = ''gt-x-crew-a''
   \<and> fst (List (fake [crewSessionName ''x'' ''a''] [])
             \<lparr>rig = \<lparr>Name = ''x'', Path = ''/town/x'', Polecats = []\<rparr>\<rparr> []) =
       Inr [\<lparr>Polecat = ''crew-a'', SessionID = ''gt-x-crew-a'', Running = True,
             Info_RigName = ''x''\<rparr>]
   \<and> (''a-b'', ''c'') \<noteq> (''a'', ''b-c'')
   \<and> sessionName \<lparr>rig = \<lparr>Name = ''a-b'', Path = ''/town/a-b'', Polecats = []\<rparr>\<rparr> ''c'' =
       sessionName \<lparr>rig = \<lparr>Name = ''a'', Path = ''/town/a'', Polecats = []\<rparr>\<rparr> ''b-c''"
  by (simp add: sessionName_def crewSessionName_def List_def tmux_ListSessions_def fake_def
      live_sessions_def HasPrefix_def TrimPrefix_def)

lemma last_error_Cons:
  "last_error (r # rs) = (case last_error rs of None \<Rightarrow> r | Some err \<Rightarrow> Some err)"
proof (cases "filter (\<lambda>r. r \<noteq> None) rs" rule: rev_cases)
  case Nil
  then show ?thesis by (cases r) (simp_all add: last_error_def)
next
  case (snoc ys y)
  then have "y \<in> set (filter (\<lambda>r. r \<noteq> None) rs)" by simp
  then obtain err where "y = Some err" by auto
  with snoc show ?thesis by (cases r) (simp_all add: last_error_def)
qed

lemma StopAll_loop_stop_each:
  "StopAll_loop e m force infos lastErr tr =
     ((case last_error (fst (stop_each e m force infos tr)) of
         None \<Rightarrow> lastErr | Some err \<Rightarrow> Some err),
      snd (stop_each e m force infos tr))"
proof (induction infos arbitrary: lastErr tr)
  case Nil
  show ?case by (simp add: last_error_def)
next
  case (Cons info infos)
  show ?case
    by (cases "Stop e m (Polecat info) force tr")
      (auto simp: Cons.IH last_error_Cons split: option.splits prod.splits)
qed

lemma Stop_HasSession:
  "filter is_HasSession (snd (Stop e m p force tr)) =
     filter is_HasSession tr @ [HasSession (sessionName m p)]"
  by (auto simp: Stop_def Let_def tmux_defs split: sum.splits bool.splits option.splits)

lemma stop_each_attempts:
  "length (fst (stop_each e m force infos tr)) = length infos
   \<and> filter is_HasSession (snd (stop_each e m force infos tr)) =
       filter is_HasSession tr @ map (\<lambda>i. HasSession (sessionName m (Polecat i))) infos"
proof (induction infos arbitrary: tr)
  case Nil
  show ?case by simp
next
  case (Cons info infos)
  show ?case
    using Cons.IH [of "snd (Stop e m (Polecat info) force tr)"]
    by (simp add: split_beta Stop_HasSession)
qed

lemma List_infos_key:
  assumes "List e m tr = (Inr infos, tr1)" and "i \<in> set infos"
  shows "sessionName m (Polecat i) = SessionID i"
proof -
  let ?pre = "''gt-'' @ Name (rig m) @ ''-''"
  from assms obtain k where k: "HasPrefix k ?pre" and "Polecat i = drop (length ?pre) k"
    and "SessionID i = k"
    by (auto simp: List_def tmux_ListSessions_def List_loop_eq split: sum.splits)
  moreover from k have "?pre @ drop (length ?pre) k = k"
    unfolding HasPrefix_def by (metis append_take_drop_id)
  ultimately show ?thesis by (simp add: sessionName_def)
qed

text \<open>
  C8.  \<open>StopAll\<close> returns the error of \<open>List\<close> when listing fails.  Otherwise it is the
  specification's sequential pass: one \<open>Stop\<close> per listed session, in the order listed, each
  starting from the trace the one before left, none skipped after a failure (there is one
  outcome per session, and the liveness queries made are exactly those of the listed keys,
  in order); the value returned is the last error among the outcomes, nil when there is
  none.  The value does not tell which sessions failed: the same error comes back when the
  kill fails for the last session only and when it fails for both.
\<close>

theorem StopAll_last_error:
  "(List e m tr = (Inl err, tr1) \<longrightarrow> StopAll e m force tr = (Some err, tr1))
   \<and> (List e m tr = (Inr infos, tr1) \<longrightarrow>
        StopAll e m force tr =
          (last_error (fst (stop_each e m force infos tr1)), snd (stop_each e m force infos tr1))
        \<and> length (fst (stop_each e m force infos tr1)) = length infos
        \<and> filter is_HasSession (snd (StopAll e m force tr)) =
            filter is_HasSession tr1 @ map (\<lambda>i. HasSession (SessionID i)) infos)
   \<and> fst (StopAll (kill_fails [''gt-gastown-joe'', ''gt-gastown-max''] [''gt-gastown-max''])
             gastown True []) =
       fst (StopAll (kill_fails [''gt-gastown-joe'', ''gt-gastown-max'']
                       [''gt-gastown-joe'', ''gt-gastown-max'']) gastown True [])"
proof (intro conjI impI)
  assume "List e m tr = (Inl err, tr1)"
  then show "StopAll e m force tr = (Some err, tr1)" by (simp add: StopAll_def)
next
  assume l: "List e m tr = (Inr infos, tr1)"
  then show *: "StopAll e m force tr =
          (last_error (fst (stop_each e m force infos tr1)), snd (stop_each e m force infos tr1))"
    by (simp add: StopAll_def StopAll_loop_stop_each split: option.splits)
  show "length (fst (stop_each e m force infos tr1)) = length infos"
    using stop_each_attempts [of e m force infos tr1] by simp
  have "sessionName m (Polecat i) = SessionID i" if "i \<in> set infos" for i
    using l that by (rule List_infos_key)
  then have "map (\<lambda>i. HasSession (sessionName m (Polecat i))) infos =
      map (\<lambda>i. HasSession (SessionID i)) infos" by simp
  then show "filter is_HasSession (snd (StopAll e m force tr)) =
            filter is_HasSession tr1 @ map (\<lambda>i. HasSession (SessionID i)) infos"
    using stop_each_attempts [of e m force infos tr1] by (simp add: *)
next
  show "fst (StopAll (kill_fails [''gt-gastown-joe'', ''gt-gastown-max''] [''gt-gastown-max''])
             gastown True []) =
       fst (StopAll (kill_fails [''gt-gastown-joe'', ''gt-gastown-max'']
                       [''gt-gastown-joe'', ''gt-gastown-max'']) gastown True [])"
    by (simp add: StopAll_def List_def tmux_ListSessions_def kill_fails_def fake_simps
        HasPrefix_def TrimPrefix_def Stop_def Let_def tmux_defs)
qed


theorem StopAll_last_error_witness:
  "List ((fake [] []) \<lparr>listSessions := \<lambda>tr. Inl ''no server running''\<rparr>) gastown [] =
     (Inl (ExtErr ''no server running''), [ListSessions])
   \<and> StopAll ((fake [] []) \<lparr>listSessions := \<lambda>tr. Inl ''no server running''\<rparr>) gastown False [] =
     (Some (ExtErr ''no server running''), [ListSessions])
   \<and> List (kill_fails [''gt-gastown-joe'', ''gt-gastown-max''] [''gt-gastown-joe'']) gastown [] =
     (Inr [\<lparr>Polecat = ''joe'', SessionID = ''gt-gastown-joe'', Running = True,
            Info_RigName = ''gastown''\<rparr>,
           \<lparr>Polecat = ''max'', SessionID = ''gt-gastown-max'', Running = True,
            Info_RigName = ''gastown''\<rparr>], [ListSessions])
   \<and> fst (stop_each (kill_fails [''gt-gastown-joe'', ''gt-gastown-max''] [''gt-gastown-joe''])
          gastown True
          [\<lparr>Polecat = ''joe'', SessionID = ''gt-gastown-joe'', Running = True,
            Info_RigName = ''gastown''\<rparr>,
           \<lparr>Polecat = ''max'', SessionID = ''gt-gastown-max'', Running = True,
            Info_RigName = ''gastown''\<rparr>] [ListSessions]) =
     [Some (Errorf ''killing session: '' (ExtErr ''kill failed'') []), None]
   \<and> StopAll (kill_fails [''gt-gastown-joe'', ''gt-gastown-max''] [''gt-gastown-joe''])
        gastown True [] =
     (Some (Errorf ''killing session: '' (ExtErr ''kill failed'') []),
      [ListSessions, HasSession ''gt-gastown-joe'', KillSession ''gt-gastown-joe'',
       HasSession ''gt-gastown-max'', KillSession ''gt-gastown-max''])"
  using StopAll_last_error [of "(fake [] []) \<lparr>listSessions := \<lambda>tr. Inl ''no server running''\<rparr>"
      gastown "[]" "ExtErr ''no server running''" "[ListSessions]" False]
    StopAll_last_error [of "kill_fails [''gt-gastown-joe'', ''gt-gastown-max''] [''gt-gastown-joe'']"
      gastown "[]" _ "[ListSessions]" True
      "[\<lparr>Polecat = ''joe'', SessionID = ''gt-gastown-joe'', Running = True,
            Info_RigName = ''gastown''\<rparr>,
           \<lparr>Polecat = ''max'', SessionID = ''gt-gastown-max'', Running = True,
            Info_RigName = ''gastown''\<rparr>]"]
  by (simp add: List_def tmux_ListSessions_def kill_fails_def fake_simps
        HasPrefix_def TrimPrefix_def Stop_def Let_def tmux_defs last_error_def)

lemmas witness_defs = loadState_def saveState_def ProcessExists_def os_FindProcess_def
  Process_Signal_def os_MkdirAll_def util_AtomicWriteJSON_def

lemma ProcessExists_go_os: "go_os e \<Longrightarrow> fst (ProcessExists e pid tr) = False"
  by (simp add: ProcessExists_def os_FindProcess_def Process_Signal_def go_os_def
      split: option.splits)

lemma saveState_result:
  "fst (saveState e m w tr) \<noteq> Some ErrAlreadyRunning"
  "fst (saveState e m w tr) \<noteq> Some ErrNotRunning"
  by (auto simp: witness_defs Let_def split: option.splits)

lemma loadState_result:
  "fst (loadState e m tr) \<noteq> Inl ErrAlreadyRunning"
  "fst (loadState e m tr) \<noteq> Inl ErrNotRunning"
  "snd (loadState e m tr) = tr @ [ReadFile (stateFile e m)]"
  by (auto simp: loadState_def split: read_result.splits sum.splits)

text \<open>In a Go runtime the probe never answers yes, so \<open>Start\<close> never refuses.\<close>

lemma witness_Start_never_AlreadyRunning:
  assumes "go_os e"
  shows "fst (witness_Start e m tr) \<noteq> Some ErrAlreadyRunning"
proof -
  obtain r tr1 where l: "loadState e m tr = (r, tr1)" by (cases "loadState e m tr")
  show ?thesis
  proof (cases r)
    case (Inl err)
    with l loadState_result(1) [of e m tr] show ?thesis
      by (auto simp: witness_Start_def)
  next
    case (Inr w)
    have "fst (ProcessExists e (PID w) tr1) = False"
      using assms by (rule ProcessExists_go_os)
    with l Inr show ?thesis
      by (cases "ProcessExists e (PID w) tr1")
        (auto simp: witness_Start_def saveState_result split: bool.splits)
  qed
qed

text \<open>
  C3.  The claim: \<open>Start\<close> of the witness returns \<open>ErrAlreadyRunning\<close> exactly when the
  persisted state is running with a pid that is still alive.  The code means this (the guard
  of \<open>Start\<close> calls \<open>ProcessExists\<close>, whose comment says it sends signal 0), but
  \<open>ProcessExists\<close> passes the nil signal, which Go's \<open>Process.Signal\<close> refuses for every
  process, so the probe answers no for a live process too.  Here the document on disk says
  running under pid 4242, process 4242 is alive (signal 0 would reach it), and \<open>Start\<close>
  returns nil and overwrites the document with its own pid 777, a start time and the rig's
  polecats, where the claim has \<open>ErrAlreadyRunning\<close> and no write.
\<close>

theorem witness_Start_overrides_live_pid:
  "go_os (persisted (running_doc 4242))
   \<and> signal (persisted (running_doc 4242)) [] 4242 (Some (syscall_Signal 0)) = None
   \<and> loadState (persisted (running_doc 4242)) gastown_witness [] =
       (Inr (running_doc 4242), [ReadFile ''/town/gastown/.runtime/witness.json''])
   \<and> witness_Start (persisted (running_doc 4242)) gastown_witness [] =
       (None, [ReadFile ''/town/gastown/.runtime/witness.json'', FindProcess 4242,
               Signal 4242 None, MkdirAll ''/town/gastown/.runtime'',
               AtomicWriteJSON ''/town/gastown/.runtime/witness.json''
                 \<lparr>RigName = ''gastown'', State = StateRunning, PID = 777,
                  StartedAt = Some 1700000003, MonitoredPolecats = [''joe'', ''max'']\<rparr>])"
  by (simp add: go_os_def persisted_def running_doc_def witness_Start_def witness_defs
      stateFile_def dir_of_def fake_simps Let_def)



lemma witness_Start_AlreadyRunning:
  assumes "fst (witness_Start e m tr) = Some ErrAlreadyRunning"
  shows "\<exists>pid. snd (witness_Start e m tr) =
           tr @ [ReadFile (stateFile e m), FindProcess pid, Signal pid None]"
proof -
  obtain r tr1 where l: "loadState e m tr = (r, tr1)" by (cases "loadState e m tr")
  with loadState_result(3) [of e m tr] have tr1: "tr1 = tr @ [ReadFile (stateFile e m)]" by simp
  show ?thesis
  proof (cases r)
    case (Inl err)
    with l assms loadState_result(1) [of e m tr] show ?thesis
      by (auto simp: witness_Start_def)
  next
    case (Inr w)
    with l assms tr1 show ?thesis
      by (auto simp: witness_Start_def ProcessExists_def os_FindProcess_def Process_Signal_def
          saveState_result split: if_splits option.splits bool.splits)
  qed
qed

lemma witness_Stop_NotRunning:
  assumes "fst (witness_Stop e m tr) = Some ErrNotRunning"
  shows "snd (witness_Stop e m tr) = tr @ [ReadFile (stateFile e m)]"
proof -
  obtain r tr1 where l: "loadState e m tr = (r, tr1)" by (cases "loadState e m tr")
  with loadState_result(3) [of e m tr] have tr1: "tr1 = tr @ [ReadFile (stateFile e m)]" by simp
  show ?thesis
  proof (cases r)
    case (Inl err)
    with l tr1 show ?thesis by (simp add: witness_Stop_def)
  next
    case (Inr w)
    with l assms tr1 show ?thesis
      by (auto simp: witness_Stop_def Let_def saveState_result split: if_splits)
  qed
qed

text \<open>
  C10.  A \<open>Start\<close> of the witness that returns \<open>ErrAlreadyRunning\<close> has read the state
  file and probed the recorded pid, and a \<open>Stop\<close> that returns \<open>ErrNotRunning\<close> has read
  the state file, and neither has done anything else: no directory was made and no document
  written, so the persisted state is as it was.  This holds whatever the environment
  answers; the refusal of \<open>Start\<close> needs a probe that answers yes, which the nil signal of
  \<open>ProcessExists\<close> never gets from a Go runtime, so there it has no instance.
\<close>

theorem witness_rejections_write_nothing:
  "(fst (witness_Start e m tr) = Some ErrAlreadyRunning \<longrightarrow>
      (\<exists>pid. snd (witness_Start e m tr) =
         tr @ [ReadFile (stateFile e m), FindProcess pid, Signal pid None])
      \<and> filter is_write (snd (witness_Start e m tr)) = filter is_write tr)
   \<and> (fst (witness_Stop e m tr) = Some ErrNotRunning \<longrightarrow>
      snd (witness_Stop e m tr) = tr @ [ReadFile (stateFile e m)]
      \<and> filter is_write (snd (witness_Stop e m tr)) = filter is_write tr)"
proof (intro conjI impI)
  assume a: "fst (witness_Start e m tr) = Some ErrAlreadyRunning"
  from witness_Start_AlreadyRunning [OF a]
  show *: "\<exists>pid. snd (witness_Start e m tr) =
         tr @ [ReadFile (stateFile e m), FindProcess pid, Signal pid None]" .
  then show "filter is_write (snd (witness_Start e m tr)) = filter is_write tr" by auto
next
  assume a: "fst (witness_Stop e m tr) = Some ErrNotRunning"
  from witness_Stop_NotRunning [OF a]
  show *: "snd (witness_Stop e m tr) = tr @ [ReadFile (stateFile e m)]" .
  then show "filter is_write (snd (witness_Stop e m tr)) = filter is_write tr" by simp
qed

theorem witness_rejections_write_nothing_witness:
  "witness_Start ((persisted (running_doc 4242)) \<lparr>signal := \<lambda>tr pid sig. None\<rparr>) gastown_witness
       [MkdirAll ''/town/gastown/.runtime''] =
     (Some ErrAlreadyRunning,
      [MkdirAll ''/town/gastown/.runtime'', ReadFile ''/town/gastown/.runtime/witness.json'',
       FindProcess 4242, Signal 4242 None])
   \<and> witness_Stop (fake [] []) gastown_witness [MkdirAll ''/town/gastown/.runtime''] =
     (Some ErrNotRunning,
      [MkdirAll ''/town/gastown/.runtime'', ReadFile ''/town/gastown/.runtime/witness.json''])"
  using witness_rejections_write_nothing
      [of "(persisted (running_doc 4242)) \<lparr>signal := \<lambda>tr pid sig. None\<rparr>" gastown_witness
        "[MkdirAll ''/town/gastown/.runtime'']"]
    witness_rejections_write_nothing [of "fake [] []" gastown_witness
        "[MkdirAll ''/town/gastown/.runtime'']"]
  by (simp add: persisted_def running_doc_def witness_Start_def witness_Stop_def witness_defs
      stateFile_def dir_of_def fake_simps Let_def)







end
